theory Spec2Isabelle
  imports Complex_Main
begin

section \<open>Numbers, errors and JSON fields\<close>

text \<open>
  The ratings of the program are Python floats (SQL \<open>Float\<close> columns). They are modelled
  as exact rationals: \<open>+\<close>, \<open>/\<close> and \<open>statistics.mean\<close> are the exact operations, and
  \<open>round(x, 2)\<close> is rounding to the nearest hundredth with ties to even. Texts are
  \<open>string\<close>s (8-bit characters), so the regular expressions are modelled on ASCII text.
\<close>

datatype py_error = ValueError | KeyError | IntegrityError | NotFound

text \<open>A key of a JSON object: absent, \<open>null\<close>, or a value.\<close>

datatype 'a jfield = Missing | Null | Val 'a

text \<open>\<open>statistics.mean\<close>; it raises on the empty list, which no call site passes.\<close>

definition mean :: "rat list \<Rightarrow> rat" where
  "mean xs = sum_list xs / of_nat (length xs)"

definition round_half_even :: "rat \<Rightarrow> int" where
  "round_half_even y =
     (let f = \<lfloor>y\<rfloor>; d = y - of_int f
      in if d < 1 / 2 then f
         else if 1 / 2 < d then f + 1
         else if even f then f else f + 1)"

text \<open>\<open>round(x, 2)\<close>\<close>

definition round2 :: "rat \<Rightarrow> rat" where
  "round2 x = of_int (round_half_even (x * 100)) / 100"

section \<open>Rating extraction (app.py, \<open>analyze_feedback\<close>)\<close>

subsection \<open>Character classes\<close>

definition lower_char :: "char \<Rightarrow> char" where
  "lower_char c =
     (if 65 \<le> (of_char c :: nat) \<and> (of_char c :: nat) \<le> 90
      then char_of ((of_char c :: nat) + 32) else c)"

text \<open>\<open>\d\<close>\<close>

definition is_digit :: "char \<Rightarrow> bool" where
  "is_digit c = (48 \<le> (of_char c :: nat) \<and> (of_char c :: nat) \<le> 57)"

text \<open>\<open>[\d.]\<close>\<close>

definition is_numch :: "char \<Rightarrow> bool" where
  "is_numch c = (is_digit c \<or> c = CHR ''.'')"

text \<open>\<open>\s\<close>: tab, newline, vertical tab, form feed, carriage return, the four
  separators \<open>0x1c\<close> to \<open>0x1f\<close>, and space.\<close>

definition is_space :: "char \<Rightarrow> bool" where
  "is_space c =
     ((9 \<le> (of_char c :: nat) \<and> (of_char c :: nat) \<le> 13)
      \<or> (28 \<le> (of_char c :: nat) \<and> (of_char c :: nat) \<le> 32))"

subsection \<open>The regular expressions\<close>

text \<open>A literal matched at the start of the text under \<open>re.IGNORECASE\<close>; the result is
  the text after the match.\<close>

fun match_ci :: "string \<Rightarrow> string \<Rightarrow> string option" where
  "match_ci [] s = Some s"
| "match_ci (p # ps) [] = None"
| "match_ci (p # ps) (c # cs) =
     (if lower_char p = lower_char c then match_ci ps cs else None)"

text \<open>\<open>\s*([\d.]+)/5\<close> matched at the start of the text; the result is group 1. Both
  repetitions are greedy, and giving back a character never helps: the character given
  back is a space (not in \<open>[\d.]\<close>) or is in \<open>[\d.]\<close> (not \<open>/\<close>).\<close>

definition match_number :: "string \<Rightarrow> string option" where
  "match_number s =
     (let s1 = dropWhile is_space s;
          g = takeWhile is_numch s1;
          s2 = dropWhile is_numch s1
      in if g \<noteq> [] \<and> take 2 s2 = ''/5'' then Some g else None)"

text \<open>\<open>re.search(lbl + r'\s*([\d.]+)/5', text, re.IGNORECASE)\<close>: the leftmost start
  position with a match; \<open>None\<close> is no match, \<open>Some g\<close> is \<open>group(1)\<close>.\<close>

definition match_label_here :: "string \<Rightarrow> string \<Rightarrow> string option" where
  "match_label_here lbl s =
     (case match_ci lbl s of None \<Rightarrow> None | Some rest \<Rightarrow> match_number rest)"

fun search_label :: "string \<Rightarrow> string \<Rightarrow> string option" where
  "search_label lbl [] = match_label_here lbl []"
| "search_label lbl (c # cs) =
     (case match_label_here lbl (c # cs) of
        Some g \<Rightarrow> Some g
      | None \<Rightarrow> search_label lbl cs)"

text \<open>\<open>.*?:\s*([\d.]+)/5\<close> matched at the start of the text: the lazy \<open>.*?\<close> tries the
  colon first and otherwise takes one more character, which must not be a newline.\<close>

fun lazy_colon :: "string \<Rightarrow> string option" where
  "lazy_colon [] = None"
| "lazy_colon (c # cs) =
     (case (if c = CHR '':'' then match_number cs else None) of
        Some g \<Rightarrow> Some g
      | None \<Rightarrow> if c = CHR 0x0A then None else lazy_colon cs)"

definition match_overall_here :: "string \<Rightarrow> string option" where
  "match_overall_here s =
     (case match_ci ''OVERALL RATING'' s of None \<Rightarrow> None | Some rest \<Rightarrow> lazy_colon rest)"

text \<open>\<open>re.search(r'OVERALL RATING.*?:\s*([\d.]+)/5', text, re.IGNORECASE)\<close>\<close>

fun search_overall :: "string \<Rightarrow> string option" where
  "search_overall [] = match_overall_here []"
| "search_overall (c # cs) =
     (case match_overall_here (c # cs) of
        Some g \<Rightarrow> Some g
      | None \<Rightarrow> search_overall cs)"

subsection \<open>\<open>float\<close> on a matched group\<close>

definition digit_val :: "char \<Rightarrow> nat" where
  "digit_val c = (of_char c :: nat) - 48"

definition nat_of_digits :: "string \<Rightarrow> nat" where
  "nat_of_digits ds = foldl (\<lambda>n c. 10 * n + digit_val c) 0 ds"

text \<open>\<open>float(g)\<close> for a group \<open>g\<close> of digits and dots: digits with at most one dot and at
  least one digit; anything else raises \<open>ValueError\<close>.\<close>

definition py_float :: "string \<Rightarrow> py_error + rat" where
  "py_float g =
     (let ip = takeWhile is_digit g; rest = dropWhile is_digit g
      in case rest of
           [] \<Rightarrow> if ip = [] then Inl ValueError else Inr (of_nat (nat_of_digits ip))
         | c # fp \<Rightarrow>
             if c = CHR ''.'' \<and> list_all is_digit fp \<and> \<not> (ip = [] \<and> fp = [])
             then Inr (of_nat (nat_of_digits (ip @ fp)) / 10 ^ length fp)
             else Inl ValueError)"

text \<open>\<open>ratings[k] = float(m.group(1))\<close> under \<open>if m:\<close>; the entry stays \<open>None\<close> without
  a match.\<close>

definition float_of_match :: "string option \<Rightarrow> py_error + rat option" where
  "float_of_match m =
     (case m of
        None \<Rightarrow> Inr None
      | Some g \<Rightarrow> (case py_float g of Inl e \<Rightarrow> Inl e | Inr v \<Rightarrow> Inr (Some v)))"

subsection \<open>The extraction\<close>

text \<open>The \<open>ratings\<close> dictionary of \<open>analyze_feedback\<close>.\<close>

record ratings =
  x_teaching_effectiveness :: "rat option"
  x_student_engagement :: "rat option"
  x_clarity :: "rat option"
  x_professionalism :: "rat option"
  x_overall :: "rat option"

text \<open>\<open>[v for v in ratings.values() if v is not None]\<close>, taken while \<open>overall\<close> is
  still \<open>None\<close>.\<close>

definition valid_ratings :: "rat option list \<Rightarrow> rat list" where
  "valid_ratings vs = map the (filter (\<lambda>v. v \<noteq> None) vs)"

text \<open>Lines 156 to 186 of app.py, on the text of the response.\<close>

definition extract_ratings :: "string \<Rightarrow> py_error + ratings" where
  "extract_ratings text =
     (let effectiveness_match = search_label ''Teaching effectiveness:'' text;
          engagement_match = search_label ''Student engagement:'' text;
          clarity_match = search_label ''Clarity of presentation:'' text;
          professionalism_match = search_label ''Overall professionalism:'' text;
          overall_match = search_overall text
      in (case float_of_match effectiveness_match of Inl e \<Rightarrow> Inl e | Inr te \<Rightarrow>
         (case float_of_match engagement_match of Inl e \<Rightarrow> Inl e | Inr se \<Rightarrow>
         (case float_of_match clarity_match of Inl e \<Rightarrow> Inl e | Inr cl \<Rightarrow>
         (case float_of_match professionalism_match of Inl e \<Rightarrow> Inl e | Inr pr \<Rightarrow>
         (case overall_match of
            Some g \<Rightarrow>
              (case py_float g of
                 Inl e \<Rightarrow> Inl e
               | Inr ov \<Rightarrow>
                   Inr \<lparr>x_teaching_effectiveness = te, x_student_engagement = se,
                        x_clarity = cl, x_professionalism = pr, x_overall = Some ov\<rparr>)
          | None \<Rightarrow>
              (let valid = valid_ratings [te, se, cl, pr, None]
               in Inr \<lparr>x_teaching_effectiveness = te, x_student_engagement = se,
                       x_clarity = cl, x_professionalism = pr,
                       x_overall =
                         (if valid \<noteq> [] then Some (sum_list valid / of_nat (length valid))
                          else None)\<rparr>)))))))"

text \<open>\<open>needle in text\<close>\<close>

fun is_prefix :: "string \<Rightarrow> string \<Rightarrow> bool" where
  "is_prefix [] s = True"
| "is_prefix (p # ps) [] = False"
| "is_prefix (p # ps) (c # cs) = (if p = c then is_prefix ps cs else False)"

fun contains :: "string \<Rightarrow> string \<Rightarrow> bool" where
  "contains needle [] = is_prefix needle []"
| "contains needle (c # cs) = (is_prefix needle (c # cs) \<or> contains needle cs)"

text \<open>\<open>analyze_feedback\<close> as a function of the text the model returned. The result is the
  first component of the returned triple; \<open>None\<close> stands for the triple
  \<open>(None, None, None)\<close>, returned for the sentinel and by the \<open>except\<close> clause. The
  recommendation is found by a further search that cannot raise and does not touch the
  ratings.\<close>

definition analyze_feedback :: "string \<Rightarrow> ratings option" where
  "analyze_feedback response_text =
     (if contains ''NO_FEEDBACK_FOUND'' response_text then None
      else case extract_ratings response_text of
             Inl e \<Rightarrow> None
           | Inr r \<Rightarrow> Some r)"

section \<open>The record store (models.py)\<close>

text \<open>
  The two tables. A table is the list of its rows in the order a query without
  \<open>ORDER BY\<close> returns them, which is the order of the integer primary key. A session is
  modelled as direct reads and writes of the rows, \<open>session.commit()\<close> included: the
  store is a plain record store with lookup, insert, update and delete, and each
  statement of the source acts on the rows when it is written. What the object-relational
  mapper does on its own at flush time, such as its handling of the loaded \<open>reviews\<close>
  collection of a deleted faculty object, is not part of the model.
\<close>

record faculty =
  f_id :: nat
  name :: string
  department :: "string option"
  avg_teaching_effectiveness :: rat
  avg_student_engagement :: rat
  avg_clarity :: rat
  avg_professionalism :: rat
  overall_rating :: rat
  total_reviews :: nat

record review =
  r_id :: nat
  faculty_id :: "nat option"
  course_code :: string
  teaching_effectiveness :: rat
  student_engagement :: rat
  clarity :: rat
  professionalism :: rat
  feedback :: "string option"
  recommendation :: "string option"
  source_type :: string
  created_at :: nat

record db =
  faculty_tbl :: "faculty list"
  reviews_tbl :: "review list"

text \<open>The key of a new row: one more than the largest key in the table.\<close>

definition next_id :: "nat list \<Rightarrow> nat" where
  "next_id ids = Suc (fold max ids 0)"

text \<open>\<open>session.get(Faculty, faculty_id)\<close>\<close>

definition get_faculty :: "db \<Rightarrow> nat \<Rightarrow> faculty option" where
  "get_faculty d fid = find (\<lambda>f. f_id f = fid) (faculty_tbl d)"

text \<open>\<open>faculty.reviews\<close>\<close>

definition reviews_of :: "db \<Rightarrow> nat \<Rightarrow> review list" where
  "reviews_of d fid = filter (\<lambda>r. faculty_id r = Some fid) (reviews_tbl d)"

text \<open>Writing back a changed faculty row at commit.\<close>

definition put_faculty :: "faculty \<Rightarrow> db \<Rightarrow> db" where
  "put_faculty f d =
     d\<lparr>faculty_tbl := map (\<lambda>g. if f_id g = f_id f then f else g) (faculty_tbl d)\<rparr>"


subsection \<open>\<open>Faculty.average_ratings\<close>\<close>

text \<open>The dictionary the property returns.\<close>

record avg_ratings =
  v_teaching_effectiveness :: rat
  v_student_engagement :: rat
  v_clarity :: rat
  v_professionalism :: rat
  v_overall :: rat

definition zero_ratings :: avg_ratings where
  "zero_ratings =
     \<lparr>v_teaching_effectiveness = 0, v_student_engagement = 0, v_clarity = 0,
      v_professionalism = 0, v_overall = 0\<rparr>"

text \<open>The property, as a function of the list \<open>self.reviews\<close>.\<close>

definition average_ratings :: "review list \<Rightarrow> avg_ratings" where
  "average_ratings reviews =
     (if reviews = [] then zero_ratings
      else
        let counted = filter (\<lambda>review. source_type review = ''screenshot_analysis'') reviews;
            count = length counted
        in if count = 0 then zero_ratings
           else
             let te = round2 (sum_list (map teaching_effectiveness counted) / of_nat count);
                 se = round2 (sum_list (map student_engagement counted) / of_nat count);
                 cl = round2 (sum_list (map clarity counted) / of_nat count);
                 pr = round2 (sum_list (map professionalism counted) / of_nat count)
             in \<lparr>v_teaching_effectiveness = te, v_student_engagement = se, v_clarity = cl,
                 v_professionalism = pr, v_overall = round2 ((te + se + cl + pr) / 4)\<rparr>)"

section \<open>The operations of api.py\<close>

definition update_faculty_ratings :: "nat \<Rightarrow> db \<Rightarrow> db" where
  "update_faculty_ratings fid d =
     (case get_faculty d fid of
        None \<Rightarrow> d
      | Some fac \<Rightarrow>
          let rs = reviews_of d fid
          in if rs = [] then d
             else
               let te = mean (map teaching_effectiveness rs);
                   se = mean (map student_engagement rs);
                   cl = mean (map clarity rs);
                   pr = mean (map professionalism rs)
               in put_faculty
                    (fac\<lparr>avg_teaching_effectiveness := te,
                         avg_student_engagement := se,
                         avg_clarity := cl,
                         avg_professionalism := pr,
                         overall_rating := mean [te, se, cl, pr],
                         total_reviews := length rs\<rparr>) d)"

text \<open>The result is the new store and the id returned.\<close>

definition get_or_create_faculty :: "string \<Rightarrow> string option \<Rightarrow> db \<Rightarrow> db \<times> nat" where
  "get_or_create_faculty nm dept d =
     (case find (\<lambda>f. name f = nm) (faculty_tbl d) of
        Some fac \<Rightarrow> (d, f_id fac)
      | None \<Rightarrow>
          let fac = \<lparr>f_id = next_id (map f_id (faculty_tbl d)), name = nm, department = dept,
                     avg_teaching_effectiveness = 0, avg_student_engagement = 0,
                     avg_clarity = 0, avg_professionalism = 0, overall_rating = 0,
                     total_reviews = 0\<rparr>
          in (d\<lparr>faculty_tbl := faculty_tbl d @ [fac]\<rparr>, f_id fac))"

text \<open>The JSON body of a request to add a review; the \<open>ratings\<close> object is taken as
  present. An optional entry is \<open>None\<close> when its key is absent or \<open>null\<close>; for
  \<open>source_type\<close> the column default \<open>direct_submission\<close> is stored then.\<close>

record review_request =
  rq_faculty_name :: "string option"
  rq_department :: "string option"
  rq_course_code :: "string jfield"
  rq_teaching_effectiveness :: "rat jfield"
  rq_student_engagement :: "rat jfield"
  rq_clarity :: "rat jfield"
  rq_professionalism :: "rat jfield"
  rq_feedback :: "string option"
  rq_recommendation :: "string option"
  rq_source_type :: "string option"

text \<open>The response of \<open>get_faculty_details\<close>; \<open>d_reviews\<close> are the rows the response
  lists.\<close>

record faculty_details =
  d_id :: nat
  d_name :: string
  d_department :: "string option"
  d_ratings :: avg_ratings
  d_total_reviews :: nat
  d_reviews :: "review list"

definition get_faculty_details :: "nat \<Rightarrow> db \<Rightarrow> py_error + faculty_details" where
  "get_faculty_details fid d =
     (case get_faculty d fid of
        None \<Rightarrow> Inl NotFound
      | Some fac \<Rightarrow>
          Inr \<lparr>d_id = f_id fac, d_name = name fac, d_department = department fac,
               d_ratings = average_ratings (reviews_of d fid),
               d_total_reviews = length (reviews_of d fid),
               d_reviews = reviews_of d fid\<rparr>)"

text \<open>\<open>add_faculty_review\<close>. \<open>now\<close> is the clock read for \<open>created_at\<close>. A missing key
  raises when the \<open>Review\<close> is built; a \<open>null\<close> in a \<open>nullable=False\<close> column raises at
  commit. A faculty created on the way stays in the store in either case.\<close>

definition add_faculty_review ::
  "nat \<Rightarrow> review_request \<Rightarrow> nat \<Rightarrow> db \<Rightarrow> db \<times> (py_error + nat)" where
  "add_faculty_review fid0 data now d0 =
     (case (case get_faculty d0 fid0 of
              Some fac \<Rightarrow> Some (d0, fid0)
            | None \<Rightarrow>
                (case rq_faculty_name data of
                   Some nm \<Rightarrow> Some (get_or_create_faculty nm (rq_department data) d0)
                 | None \<Rightarrow> None)) of
        None \<Rightarrow> (d0, Inl NotFound)
      | Some (d, fid) \<Rightarrow>
          (case (rq_course_code data, rq_teaching_effectiveness data,
                 rq_student_engagement data, rq_clarity data, rq_professionalism data) of
             (Val cc, Val te, Val se, Val cl, Val pr) \<Rightarrow>
               let new_review = \<lparr>r_id = next_id (map r_id (reviews_tbl d)), faculty_id = Some fid,
                          course_code = cc, teaching_effectiveness = te,
                          student_engagement = se, clarity = cl, professionalism = pr,
                          feedback = rq_feedback data, recommendation = rq_recommendation data,
                          source_type =
                            (case rq_source_type data of
                               Some s \<Rightarrow> s | None \<Rightarrow> ''direct_submission''),
                          created_at = now\<rparr>;
                   d1 = d\<lparr>reviews_tbl := reviews_tbl d @ [new_review]\<rparr>
               in (update_faculty_ratings fid d1, Inr (r_id new_review))
           | (cc, te, se, cl, pr) \<Rightarrow>
               if cc = Missing \<or> te = Missing \<or> se = Missing \<or> cl = Missing \<or> pr = Missing
               then (d, Inl KeyError)
               else (d, Inl IntegrityError)))"

text \<open>\<open>delete_review_by_id\<close>\<close>

definition delete_review_by_id :: "nat \<Rightarrow> db \<Rightarrow> db \<times> (py_error + unit)" where
  "delete_review_by_id rid d =
     (case find (\<lambda>r. r_id r = rid) (reviews_tbl d) of
        None \<Rightarrow> (d, Inl NotFound)
      | Some found \<Rightarrow>
          (d\<lparr>reviews_tbl := filter (\<lambda>r. r_id r \<noteq> rid) (reviews_tbl d)\<rparr>, Inr ()))"

text \<open>\<open>delete_faculty_reviews\<close>\<close>

definition delete_faculty_reviews :: "nat \<Rightarrow> db \<Rightarrow> db" where
  "delete_faculty_reviews fid d =
     d\<lparr>reviews_tbl := filter (\<lambda>r. faculty_id r \<noteq> Some fid) (reviews_tbl d)\<rparr>"

text \<open>\<open>delete_faculty_course_reviews\<close>; the number is \<open>reviews_deleted\<close>.\<close>

definition delete_faculty_course_reviews ::
  "nat \<Rightarrow> string \<Rightarrow> db \<Rightarrow> db \<times> (py_error + nat)" where
  "delete_faculty_course_reviews fid cc d =
     (case get_faculty d fid of
        None \<Rightarrow> (d, Inl NotFound)
      | Some fac \<Rightarrow>
          let doomed = (\<lambda>r. faculty_id r = Some fid \<and> course_code r = cc);
              deleted_count = length (filter doomed (reviews_tbl d));
              d1 = d\<lparr>reviews_tbl := filter (\<lambda>r. \<not> doomed r) (reviews_tbl d)\<rparr>
          in (update_faculty_ratings fid d1, Inr deleted_count))"

text \<open>\<open>delete_course_reviews\<close>; \<open>affected_faculty\<close> is the query
  \<open>Faculty.reviews.any()\<close>, run after the deletion.\<close>

definition delete_course_reviews :: "string \<Rightarrow> db \<Rightarrow> db \<times> nat" where
  "delete_course_reviews cc d =
     (let deleted_count = length (filter (\<lambda>r. course_code r = cc) (reviews_tbl d));
          d1 = d\<lparr>reviews_tbl := filter (\<lambda>r. course_code r \<noteq> cc) (reviews_tbl d)\<rparr>;
          affected_faculty = filter (\<lambda>f. reviews_of d1 (f_id f) \<noteq> []) (faculty_tbl d1)
      in (fold (\<lambda>fac. update_faculty_ratings (f_id fac)) affected_faculty d1, deleted_count))"




text \<open>\<open>add_test_data\<close>: a new faculty named ARD with the column defaults, and one review
  of it; the aggregates are not updated.\<close>

definition add_test_data :: "nat \<Rightarrow> db \<Rightarrow> db" where
  "add_test_data now d =
     (let fac = \<lparr>f_id = next_id (map f_id (faculty_tbl d)), name = ''ARD'',
                 department = Some ''Computer Science'',
                 avg_teaching_effectiveness = 0, avg_student_engagement = 0,
                 avg_clarity = 0, avg_professionalism = 0, overall_rating = 0,
                 total_reviews = 0\<rparr>;
          test_review = \<lparr>r_id = next_id (map r_id (reviews_tbl d)), faculty_id = Some (f_id fac),
                 course_code = ''TEST101'', teaching_effectiveness = 7 / 2,
                 student_engagement = 3, clarity = 16 / 5, professionalism = 19 / 5,
                 feedback = Some ''Test feedback'',
                 recommendation = Some ''Test recommendation'',
                 source_type = ''test_data'', created_at = now\<rparr>
      in d\<lparr>faculty_tbl := faculty_tbl d @ [fac], reviews_tbl := reviews_tbl d @ [test_review]\<rparr>)"

section \<open>Example stores\<close>

text \<open>Stores reached from the empty store by the operations above; the examples below
  are evaluated on them.\<close>

definition empty_db :: db where
  "empty_db = \<lparr>faculty_tbl = [], reviews_tbl = []\<rparr>"

text \<open>A request body with the four ratings equal to \<open>v\<close>.\<close>

definition rating_request ::
  "string option \<Rightarrow> string \<Rightarrow> rat \<Rightarrow> string option \<Rightarrow> review_request" where
  "rating_request nm cc v st =
     \<lparr>rq_faculty_name = nm, rq_department = None, rq_course_code = Val cc,
      rq_teaching_effectiveness = Val v, rq_student_engagement = Val v, rq_clarity = Val v,
      rq_professionalism = Val v, rq_feedback = None, rq_recommendation = None,
      rq_source_type = st\<rparr>"

text \<open>Faculty 1 (ARD), without reviews.\<close>

definition store_no_review :: db where
  "store_no_review = fst (get_or_create_faculty ''ARD'' None empty_db)"

text \<open>Then its first review, course CSE330, all ratings 4, no source type given.\<close>

definition store_one_review :: db where
  "store_one_review =
     fst (add_faculty_review 1 (rating_request None ''CSE330'' 4 None) 0 store_no_review)"

text \<open>Then a second review of faculty 1, course CSE220, all ratings 2.\<close>

definition store_two_reviews :: db where
  "store_two_reviews =
     fst (add_faculty_review 1 (rating_request None ''CSE220'' 2 None) 1 store_one_review)"

text \<open>Three faculty rows named ARD that own 2, 0 and 3 reviews.\<close>

definition store_three_ards :: db where
  "store_three_ards =
     fst (add_faculty_review 3 (rating_request None ''CSE220'' 2 None) 6
       (fst (add_faculty_review 3 (rating_request None ''CSE330'' 5 None) 5
         (delete_faculty_reviews 2
           (fst (add_faculty_review 1 (rating_request None ''CSE330'' 4 None) 3
             (add_test_data 2 (add_test_data 1 (add_test_data 0 empty_db)))))))))"

text \<open>Faculty 1 as in \<open>store_one_review\<close>; faculty 2 (XYZ) got reviews 2 (CSE220, all 2)
  and 3 (CSE110, all 4), and review 3 was then deleted by its id.\<close>

definition store_two_faculty :: db where
  "store_two_faculty =
     fst (delete_review_by_id 3
       (fst (add_faculty_review 2 (rating_request None ''CSE110'' 4 None) 3
         (fst (add_faculty_review 2 (rating_request (Some ''XYZ'') ''CSE220'' 2 None) 2
           store_one_review)))))"

text \<open>The six stored aggregate columns of a faculty row: the four averages,
  \<open>overall_rating\<close> and \<open>total_reviews\<close>.\<close>

definition stored_aggregates ::
  "db \<Rightarrow> nat \<Rightarrow> (rat \<times> rat \<times> rat \<times> rat \<times> rat \<times> nat) option" where
  "stored_aggregates d fid =
     map_option
       (\<lambda>f. (avg_teaching_effectiveness f, avg_student_engagement f, avg_clarity f,
             avg_professionalism f, overall_rating f, total_reviews f))
       (get_faculty d fid)"


section \<open>Example texts\<close>





definition text_out_of_range :: string where
  "text_out_of_range = ''Teaching effectiveness: 9/5 Student engagement: 3/5''"

definition text_malformed :: string where
  "text_malformed = ''Teaching effectiveness: 4/5 Clarity of presentation: 1.2.3/5''"

section \<open>Properties\<close>

subsection \<open>Lookups and writes of the store\<close>

lemma find_put:
  "find (\<lambda>f. f_id f = fid) xs = Some fac \<Longrightarrow> f_id fac' = fid \<Longrightarrow>
   find (\<lambda>f. f_id f = fid) (map (\<lambda>g. if f_id g = fid then fac' else g) xs) = Some fac'"
  by (induction xs) (auto split: if_splits)

lemma get_put_faculty:
  "get_faculty d fid = Some fac \<Longrightarrow> f_id fac' = fid \<Longrightarrow>
   get_faculty (put_faculty fac' d) fid = Some fac'"
  by (simp add: get_faculty_def put_faculty_def find_put)

lemma get_faculty_id: "get_faculty d fid = Some fac \<Longrightarrow> f_id fac = fid"
  by (auto simp: get_faculty_def find_Some_iff)

subsection \<open>Recomputing the stored aggregates\<close>

lemma update_faculty_ratings_eq:
  assumes "get_faculty d fid = Some fac" and "reviews_of d fid \<noteq> []"
  shows "update_faculty_ratings fid d =
     put_faculty
       (fac\<lparr>avg_teaching_effectiveness := mean (map teaching_effectiveness (reviews_of d fid)),
            avg_student_engagement := mean (map student_engagement (reviews_of d fid)),
            avg_clarity := mean (map clarity (reviews_of d fid)),
            avg_professionalism := mean (map professionalism (reviews_of d fid)),
            overall_rating :=
              mean [mean (map teaching_effectiveness (reviews_of d fid)),
                    mean (map student_engagement (reviews_of d fid)),
                    mean (map clarity (reviews_of d fid)),
                    mean (map professionalism (reviews_of d fid))],
            total_reviews := length (reviews_of d fid)\<rparr>) d"
  using assms by (simp add: update_faculty_ratings_def Let_def)

text \<open>
  C2: for a faculty with at least one review, \<open>update_faculty_ratings\<close> stores in each of
  the four averages the arithmetic mean of that rating over all reviews of the faculty
  (whatever their source type: \<open>reviews_of\<close> selects by owner only), in
  \<open>overall_rating\<close> the mean of the four stored averages, and in \<open>total_reviews\<close> the
  number of its reviews. The reviews table is not changed.
\<close>

theorem update_faculty_ratings_means:
  assumes "get_faculty d fid = Some fac" and "reviews_of d fid \<noteq> []"
  shows "\<exists>fac'. get_faculty (update_faculty_ratings fid d) fid = Some fac' \<and>
     reviews_tbl (update_faculty_ratings fid d) = reviews_tbl d \<and>
     avg_teaching_effectiveness fac' =
       sum_list (map teaching_effectiveness (reviews_of d fid))
         / of_nat (length (reviews_of d fid)) \<and>
     avg_student_engagement fac' =
       sum_list (map student_engagement (reviews_of d fid))
         / of_nat (length (reviews_of d fid)) \<and>
     avg_clarity fac' =
       sum_list (map clarity (reviews_of d fid)) / of_nat (length (reviews_of d fid)) \<and>
     avg_professionalism fac' =
       sum_list (map professionalism (reviews_of d fid))
         / of_nat (length (reviews_of d fid)) \<and>
     overall_rating fac' =
       (avg_teaching_effectiveness fac' + avg_student_engagement fac' + avg_clarity fac'
        + avg_professionalism fac') / 4 \<and>
     total_reviews fac' = length (reviews_of d fid)"
proof -
  let ?rs = "reviews_of d fid"
  let ?fac' = "fac\<lparr>avg_teaching_effectiveness := mean (map teaching_effectiveness ?rs),
                   avg_student_engagement := mean (map student_engagement ?rs),
                   avg_clarity := mean (map clarity ?rs),
                   avg_professionalism := mean (map professionalism ?rs),
                   overall_rating := mean [mean (map teaching_effectiveness ?rs),
                      mean (map student_engagement ?rs), mean (map clarity ?rs),
                      mean (map professionalism ?rs)],
                   total_reviews := length ?rs\<rparr>"
  have upd: "update_faculty_ratings fid d = put_faculty ?fac' d"
    using assms by (rule update_faculty_ratings_eq)
  have fid: "f_id ?fac' = fid"
    using assms(1) by (simp add: get_faculty_id)
  have got: "get_faculty (update_faculty_ratings fid d) fid = Some ?fac'"
    unfolding upd using assms(1) fid by (rule get_put_faculty)
  have tbl: "reviews_tbl (update_faculty_ratings fid d) = reviews_tbl d"
    unfolding upd by (simp add: put_faculty_def)
  show ?thesis
    using got tbl by (simp add: mean_def)
qed

text \<open>On the store with three ARD rows, faculty 3 owns reviews rated 7/2, 3, 16/5, 19/5
  (source \<open>test_data\<close>), 5 and 2 (source \<open>direct_submission\<close>).\<close>

theorem update_faculty_ratings_means_witness:
  "get_faculty store_three_ards 3 \<noteq> None \<and> reviews_of store_three_ards 3 \<noteq> [] \<and>
   map source_type (reviews_of store_three_ards 3) =
     [''test_data'', ''direct_submission'', ''direct_submission''] \<and>
   (\<exists>fac'. get_faculty (update_faculty_ratings 3 store_three_ards) 3 = Some fac' \<and>
      avg_teaching_effectiveness fac' = 7 / 2 \<and> avg_student_engagement fac' = 10 / 3 \<and>
      avg_clarity fac' = 17 / 5 \<and> avg_professionalism fac' = 18 / 5 \<and>
      overall_rating fac' = 83 / 24 \<and> total_reviews fac' = 3)"
proof -
  have h0: "get_faculty store_three_ards 3 \<noteq> None"
    by code_simp
  then obtain fac where h1: "get_faculty store_three_ards 3 = Some fac"
    by auto
  have h2: "reviews_of store_three_ards 3 \<noteq> []"
    by code_simp
  have te: "map teaching_effectiveness (reviews_of store_three_ards 3) = [7 / 2, 5, 2]"
    by code_simp
  have se: "map student_engagement (reviews_of store_three_ards 3) = [3, 5, 2]"
    by code_simp
  have cl: "map clarity (reviews_of store_three_ards 3) = [16 / 5, 5, 2]"
    by code_simp
  have pr: "map professionalism (reviews_of store_three_ards 3) = [19 / 5, 5, 2]"
    by code_simp
  have st: "map source_type (reviews_of store_three_ards 3) =
     [''test_data'', ''direct_submission'', ''direct_submission'']"
    by code_simp
  have n: "length (reviews_of store_three_ards 3) = 3"
    by code_simp
  from update_faculty_ratings_means [OF h1 h2]
  obtain fac' where
    "get_faculty (update_faculty_ratings 3 store_three_ards) 3 = Some fac'"
    "avg_teaching_effectiveness fac' = 7 / 2" "avg_student_engagement fac' = 10 / 3"
    "avg_clarity fac' = 17 / 5" "avg_professionalism fac' = 18 / 5"
    "overall_rating fac' = 83 / 24" "total_reviews fac' = 3"
    unfolding te se cl pr n by auto
  then show ?thesis
    using h0 h2 st by auto
qed

subsection \<open>Consolidation\<close>











subsection \<open>Deletions\<close>

text \<open>A faculty row created by \<open>get_or_create_faculty\<close> stores 0 in all six aggregate
  columns, and the ratings \<open>get_faculty_details\<close> reads for a faculty without reviews are
  all 0.\<close>

lemma fold_max_ge: "x \<in> set ids \<Longrightarrow> x \<le> fold max ids (a::nat)"
proof (induction ids arbitrary: a)
  case Nil
  then show ?case by simp
next
  case (Cons i ids)
  have mono: "b \<le> fold max ids b" for b :: nat
    by (induction ids arbitrary: b) (auto intro: order_trans [OF max.cobounded2])
  show ?case
  proof (cases "x = i")
    case True
    then show ?thesis
      using mono [of "max i a"] by simp
  next
    case False
    then show ?thesis using Cons by simp
  qed
qed

lemma next_id_fresh: "x \<in> set ids \<Longrightarrow> x \<noteq> next_id ids"
  using fold_max_ge [of x ids 0] by (auto simp: next_id_def)

lemma find_snoc:
  "find P (xs @ [y]) = (case find P xs of Some x \<Rightarrow> Some x | None \<Rightarrow> if P y then Some y else None)"
  by (induction xs) auto

lemma new_faculty_stored_zero:
  assumes "find (\<lambda>f. name f = nm) (faculty_tbl d) = None"
  shows "stored_aggregates (fst (get_or_create_faculty nm dept d))
           (snd (get_or_create_faculty nm dept d)) = Some (0, 0, 0, 0, 0, 0)"
proof -
  have "find (\<lambda>f. f_id f = next_id (map f_id (faculty_tbl d))) (faculty_tbl d) = None"
    using next_id_fresh [of _ "map f_id (faculty_tbl d)"] by (auto simp: find_None_iff)
  then show ?thesis
    using assms
    by (simp add: get_or_create_faculty_def stored_aggregates_def get_faculty_def Let_def
        find_snoc)
qed

lemma views_zero_without_reviews:
  assumes "get_faculty d fid = Some fac" and "reviews_of d fid = []"
  shows "map_sum id d_ratings (get_faculty_details fid d) = Inr zero_ratings"
  using assms by (simp add: get_faculty_details_def average_ratings_def)

text \<open>
  C1 (a faculty with zero reviews has all stored aggregates 0, also right after its
  reviews were deleted). \<open>update_faculty_ratings\<close> writes nothing when the faculty has
  no review: after \<open>delete_faculty_course_reviews\<close> has deleted the only review of
  faculty 1 and has called it, the stored averages and \<open>overall_rating\<close> are still 4 and
  \<open>total_reviews\<close> is still 1.
\<close>

theorem stored_aggregates_kept_at_zero_reviews:
  "stored_aggregates store_one_review 1 = Some (4, 4, 4, 4, 4, 1) \<and>
   snd (delete_faculty_course_reviews 1 ''CSE330'' store_one_review) = Inr 1 \<and>
   reviews_of (fst (delete_faculty_course_reviews 1 ''CSE330'' store_one_review)) 1 = [] \<and>
   stored_aggregates (fst (delete_faculty_course_reviews 1 ''CSE330'' store_one_review)) 1 =
     Some (4, 4, 4, 4, 4, 1)"
  by code_simp

text \<open>
  C5 (the stored aggregates are recomputed after every creation and every deletion of a
  review). \<open>delete_review_by_id\<close> and \<open>delete_faculty_reviews\<close> do not recompute:
  faculty 1 has reviews rated 4 and 2 and stored aggregates 3; after review 2 is deleted
  by its id they are still 3 with \<open>total_reviews\<close> 2, where a recomputation gives 4
  and 1; after all reviews of faculty 1 are deleted they are still 3 and 2.
\<close>

theorem deletions_without_recompute:
  "stored_aggregates store_two_reviews 1 = Some (3, 3, 3, 3, 3, 2) \<and>
   snd (delete_review_by_id 2 store_two_reviews) = Inr () \<and>
   stored_aggregates (fst (delete_review_by_id 2 store_two_reviews)) 1 =
     Some (3, 3, 3, 3, 3, 2) \<and>
   stored_aggregates
     (update_faculty_ratings 1 (fst (delete_review_by_id 2 store_two_reviews))) 1 =
     Some (4, 4, 4, 4, 4, 1) \<and>
   reviews_of (delete_faculty_reviews 1 store_two_reviews) 1 = [] \<and>
   stored_aggregates (delete_faculty_reviews 1 store_two_reviews) 1 =
     Some (3, 3, 3, 3, 3, 2)"
  by code_simp

text \<open>
  C6 (deleting the reviews of a course recomputes exactly the faculty that owned a deleted
  review, also one left without reviews, and leaves the others as they were).
  \<open>delete_course_reviews\<close> recomputes every faculty that still has a review, and no
  other: the one CSE330 review belongs to faculty 1, which is left without reviews and
  keeps its stored aggregates 4 and \<open>total_reviews\<close> 1; faculty 2 owned no CSE330 review
  and its stored aggregates change from 3 and 2 to 2 and 1.
\<close>

theorem delete_course_reviews_recomputes_remaining:
  "map faculty_id (filter (\<lambda>r. course_code r = ''CSE330'') (reviews_tbl store_two_faculty)) =
     [Some 1] \<and>
   snd (delete_course_reviews ''CSE330'' store_two_faculty) = 1 \<and>
   reviews_of (fst (delete_course_reviews ''CSE330'' store_two_faculty)) 1 = [] \<and>
   stored_aggregates store_two_faculty 1 = Some (4, 4, 4, 4, 4, 1) \<and>
   stored_aggregates (fst (delete_course_reviews ''CSE330'' store_two_faculty)) 1 =
     Some (4, 4, 4, 4, 4, 1) \<and>
   stored_aggregates store_two_faculty 2 = Some (3, 3, 3, 3, 3, 2) \<and>
   stored_aggregates (fst (delete_course_reviews ''CSE330'' store_two_faculty)) 2 =
     Some (2, 2, 2, 2, 2, 1)"
  by code_simp

subsection \<open>Reading the aggregates\<close>





lemma round2_4: "round2 4 = 4"
  by (simp add: round2_def round_half_even_def)

text \<open>
  C9, amended: a review with all four ratings 4 is added to an existing faculty that has
  no review. The stored averages and \<open>overall_rating\<close> are then 4 and
  \<open>total_reviews\<close> is 1. \<open>get_faculty_details\<close> reports one review, and as
  ratings 4 for each dimension and for \<open>overall\<close> if the source type of the review is
  \<open>screenshot_analysis\<close>; for any other source type, the default
  \<open>direct_submission\<close> included, it reports 0 for all five.
\<close>

theorem add_review_then_read:
  assumes "get_faculty d fid = Some fac" and "reviews_of d fid = []"
    and "rq_course_code data = Val cc"
    and "rq_teaching_effectiveness data = Val 4" and "rq_student_engagement data = Val 4"
    and "rq_clarity data = Val 4" and "rq_professionalism data = Val 4"
  shows "\<exists>rid det.
     snd (add_faculty_review fid data now d) = Inr rid \<and>
     stored_aggregates (fst (add_faculty_review fid data now d)) fid = Some (4, 4, 4, 4, 4, 1) \<and>
     get_faculty_details fid (fst (add_faculty_review fid data now d)) = Inr det \<and>
     d_total_reviews det = 1 \<and>
     d_ratings det =
       (if rq_source_type data = Some ''screenshot_analysis''
        then \<lparr>v_teaching_effectiveness = 4, v_student_engagement = 4, v_clarity = 4,
              v_professionalism = 4, v_overall = 4\<rparr>
        else \<lparr>v_teaching_effectiveness = 0, v_student_engagement = 0, v_clarity = 0,
              v_professionalism = 0, v_overall = 0\<rparr>)"
proof -
  let ?st = "case rq_source_type data of Some s \<Rightarrow> s | None \<Rightarrow> ''direct_submission''"
  let ?new = "\<lparr>r_id = next_id (map r_id (reviews_tbl d)), faculty_id = Some fid,
                course_code = cc, teaching_effectiveness = 4, student_engagement = 4,
                clarity = 4, professionalism = 4, feedback = rq_feedback data,
                recommendation = rq_recommendation data, source_type = ?st,
                created_at = now\<rparr>"
  let ?d1 = "d\<lparr>reviews_tbl := reviews_tbl d @ [?new]\<rparr>"
  let ?fac' = "fac\<lparr>avg_teaching_effectiveness := 4, avg_student_engagement := 4,
                   avg_clarity := 4, avg_professionalism := 4, overall_rating := 4,
                   total_reviews := 1\<rparr>"
  have run: "add_faculty_review fid data now d = (update_faculty_ratings fid ?d1, Inr (r_id ?new))"
    using assms by (simp add: add_faculty_review_def Let_def)
  have fac1: "get_faculty ?d1 fid = Some fac"
    using assms(1) by (simp add: get_faculty_def)
  have revs1: "reviews_of ?d1 fid = [?new]"
    using assms(2) by (simp add: reviews_of_def)
  have upd: "update_faculty_ratings fid ?d1 = put_faculty ?fac' ?d1"
    using fac1 revs1 by (simp add: update_faculty_ratings_eq mean_def)
  have fid: "f_id ?fac' = fid"
    using assms(1) by (simp add: get_faculty_id)
  have fac2: "get_faculty (update_faculty_ratings fid ?d1) fid = Some ?fac'"
    unfolding upd using fac1 fid by (rule get_put_faculty)
  have revs2: "reviews_of (update_faculty_ratings fid ?d1) fid = [?new]"
    unfolding upd using revs1 by (simp add: reviews_of_def put_faculty_def)
  have st: "(?st = ''screenshot_analysis'') = (rq_source_type data = Some ''screenshot_analysis'')"
    by (cases "rq_source_type data") auto
  have view: "average_ratings [?new] =
       (if rq_source_type data = Some ''screenshot_analysis''
        then \<lparr>v_teaching_effectiveness = 4, v_student_engagement = 4, v_clarity = 4,
              v_professionalism = 4, v_overall = 4\<rparr>
        else \<lparr>v_teaching_effectiveness = 0, v_student_engagement = 0, v_clarity = 0,
              v_professionalism = 0, v_overall = 0\<rparr>)"
    using st by (simp add: average_ratings_def zero_ratings_def Let_def round2_4)
  show ?thesis
    unfolding run fst_conv snd_conv
    using fac2 revs2 view
    by (simp add: stored_aggregates_def get_faculty_details_def)
qed

theorem add_review_then_read_witness:
  "get_faculty store_no_review 1 \<noteq> None \<and> reviews_of store_no_review 1 = [] \<and>
   map_sum id d_ratings
     (get_faculty_details 1
        (fst (add_faculty_review 1
               (rating_request None ''CSE330'' 4 (Some ''screenshot_analysis'')) 0
               store_no_review))) =
     Inr \<lparr>v_teaching_effectiveness = 4, v_student_engagement = 4, v_clarity = 4,
          v_professionalism = 4, v_overall = 4\<rparr> \<and>
   stored_aggregates
     (fst (add_faculty_review 1
            (rating_request None ''CSE330'' 4 (Some ''screenshot_analysis'')) 0
            store_no_review)) 1 = Some (4, 4, 4, 4, 4, 1)"
proof -
  let ?data = "rating_request None ''CSE330'' 4 (Some ''screenshot_analysis'')"
  have h0: "get_faculty store_no_review 1 \<noteq> None"
    by code_simp
  then obtain fac where h1: "get_faculty store_no_review 1 = Some fac"
    by auto
  have h2: "reviews_of store_no_review 1 = []"
    by code_simp
  have rq: "rq_course_code ?data = Val ''CSE330''" "rq_teaching_effectiveness ?data = Val 4"
    "rq_student_engagement ?data = Val 4" "rq_clarity ?data = Val 4"
    "rq_professionalism ?data = Val 4"
    "rq_source_type ?data = Some ''screenshot_analysis''"
    by (simp_all add: rating_request_def)
  from add_review_then_read [OF h1 h2 rq(1-5), of 0]
  show ?thesis
    using h0 h2 unfolding rq(6) by auto
qed

text \<open>With no source type in the request the ratings read are all 0.\<close>

theorem add_review_then_read_counterexample:
  "reviews_of store_no_review 1 = [] \<and>
   add_faculty_review 1 (rating_request None ''CSE330'' 4 None) 0 store_no_review =
     (store_one_review, Inr 1) \<and>
   length (reviews_of store_one_review 1) = 1 \<and>
   map_sum id d_ratings (get_faculty_details 1 store_one_review) =
     Inr \<lparr>v_teaching_effectiveness = 0, v_student_engagement = 0, v_clarity = 0,
          v_professionalism = 0, v_overall = 0\<rparr>"
  by code_simp

subsection \<open>Extraction\<close>

text \<open>The character classes on the bits of a character, for evaluating the searches on
  a given text.\<close>

lemma lower_char_Char:
  "lower_char (Char b0 b1 b2 b3 b4 b5 b6 b7) =
     (if b6 \<and> \<not> b5 \<and> \<not> b7 \<and> (b0 \<or> b1 \<or> b2 \<or> b3 \<or> b4) \<and> \<not> (b4 \<and> b3 \<and> (b2 \<or> (b1 \<and> b0)))
      then Char b0 b1 b2 b3 b4 True b6 b7 else Char b0 b1 b2 b3 b4 b5 b6 b7)"
  by (cases b0; cases b1; cases b2; cases b3; cases b4; cases b5; cases b6; cases b7;
      simp add: lower_char_def char_of_def bit_0)

lemma is_digit_Char:
  "is_digit (Char b0 b1 b2 b3 b4 b5 b6 b7) =
     (b4 \<and> b5 \<and> \<not> b6 \<and> \<not> b7 \<and> (\<not> b3 \<or> (\<not> b2 \<and> \<not> b1)))"
  by (cases b0; cases b1; cases b2; cases b3; cases b4; cases b5; cases b6; cases b7;
      simp add: is_digit_def)

lemma is_space_Char:
  "is_space (Char b0 b1 b2 b3 b4 b5 b6 b7) =
     (\<not> b5 \<and> \<not> b6 \<and> \<not> b7 \<and> \<not> b4 \<and> b3 \<and> ((\<not> b2 \<and> (b0 \<or> b1)) \<or> (b2 \<and> \<not> b1))
      \<or> (\<not> b5 \<and> \<not> b6 \<and> \<not> b7 \<and> b4 \<and> b3 \<and> b2)
      \<or> (b5 \<and> \<not> b6 \<and> \<not> b7 \<and> \<not> b4 \<and> \<not> b3 \<and> \<not> b2 \<and> \<not> b1 \<and> \<not> b0))"
  by (cases b0; cases b1; cases b2; cases b3; cases b4; cases b5; cases b6; cases b7;
      simp add: is_space_def)

lemmas eval_text = lower_char_Char is_digit_Char is_space_Char is_numch_def match_number_def
  match_label_here_def match_overall_here_def

lemma float_examples:
  "py_float ''2'' = Inr 2" "py_float ''3'' = Inr 3" "py_float ''4'' = Inr 4"
  "py_float ''5'' = Inr 5" "py_float ''9'' = Inr 9" "py_float ''3.0'' = Inr 3"
  "py_float ''1.2.3'' = Inl ValueError"
  by code_simp+





lemma text_out_of_range_matches:
  "search_label ''Teaching effectiveness:'' text_out_of_range = Some ''9''"
  "search_label ''Student engagement:'' text_out_of_range = Some ''3''"
  "search_label ''Clarity of presentation:'' text_out_of_range = None"
  "search_label ''Overall professionalism:'' text_out_of_range = None"
  "search_overall text_out_of_range = None"
  "\<not> contains ''NO_FEEDBACK_FOUND'' text_out_of_range"
  by (simp_all add: text_out_of_range_def eval_text)

lemma text_malformed_matches:
  "search_label ''Teaching effectiveness:'' text_malformed = Some ''4''"
  "search_label ''Student engagement:'' text_malformed = None"
  "search_label ''Clarity of presentation:'' text_malformed = Some ''1.2.3''"
  "search_label ''Overall professionalism:'' text_malformed = None"
  "search_overall text_malformed = None"
  "\<not> contains ''NO_FEEDBACK_FOUND'' text_malformed"
  by (simp_all add: text_malformed_def eval_text)

lemmas eval_extract = analyze_feedback_def extract_ratings_def float_of_match_def
  valid_ratings_def float_examples


lemma float_of_match_Inr:
  "float_of_match m = Inr x \<Longrightarrow>
   (m = None \<longrightarrow> x = None) \<and> (\<forall>g. m = Some g \<longrightarrow> (\<exists>v. py_float g = Inr v \<and> x = Some v))"
  by (auto simp: float_of_match_def split: option.splits sum.splits)

lemma float_of_match_Inl:
  "m = Some g \<Longrightarrow> py_float g = Inl e \<Longrightarrow> float_of_match m = Inl e"
  by (simp add: float_of_match_def)

lemma extract_ratings_Inr:
  assumes "extract_ratings text = Inr r"
  shows "float_of_match (search_label ''Teaching effectiveness:'' text) = Inr (x_teaching_effectiveness r)"
    and "float_of_match (search_label ''Student engagement:'' text) = Inr (x_student_engagement r)"
    and "float_of_match (search_label ''Clarity of presentation:'' text) = Inr (x_clarity r)"
    and "float_of_match (search_label ''Overall professionalism:'' text) = Inr (x_professionalism r)"
    and "\<forall>g. search_overall text = Some g \<longrightarrow> py_float g = Inr (the (x_overall r)) \<and> x_overall r \<noteq> None"
    and "search_overall text = None \<longrightarrow>
           x_overall r =
             (let valid = valid_ratings [x_teaching_effectiveness r, x_student_engagement r,
                                         x_clarity r, x_professionalism r, None]
              in if valid \<noteq> [] then Some (sum_list valid / of_nat (length valid)) else None)"
  using assms
  by (auto simp: extract_ratings_def Let_def split: sum.splits option.splits)

lemma analyze_feedback_Some:
  "analyze_feedback text = Some r \<Longrightarrow> extract_ratings text = Inr r"
  by (auto simp: analyze_feedback_def split: if_splits sum.splits)

text \<open>The extraction returns ratings when the sentinel is absent and \<open>float\<close> accepts
  every matched number.\<close>

lemma analyze_feedback_returns:
  assumes "\<not> contains ''NO_FEEDBACK_FOUND'' text"
    and "\<And>m g. m \<in> set [search_label ''Teaching effectiveness:'' text,
                          search_label ''Student engagement:'' text,
                          search_label ''Clarity of presentation:'' text,
                          search_label ''Overall professionalism:'' text,
                          search_overall text] \<Longrightarrow> m = Some g \<Longrightarrow> \<exists>v. py_float g = Inr v"
  shows "\<exists>r. analyze_feedback text = Some r"
proof -
  have fm: "\<exists>x. float_of_match m = Inr x"
    if "m \<in> set [search_label ''Teaching effectiveness:'' text,
                  search_label ''Student engagement:'' text,
                  search_label ''Clarity of presentation:'' text,
                  search_label ''Overall professionalism:'' text,
                  search_overall text]" for m
    using assms(2) [OF that] by (cases m) (auto simp: float_of_match_def)
  obtain te se cl pr where
    "float_of_match (search_label ''Teaching effectiveness:'' text) = Inr te"
    "float_of_match (search_label ''Student engagement:'' text) = Inr se"
    "float_of_match (search_label ''Clarity of presentation:'' text) = Inr cl"
    "float_of_match (search_label ''Overall professionalism:'' text) = Inr pr"
    using fm by (metis list.set_intros(1) list.set_intros(2))
  moreover have "search_overall text = None \<or> (\<exists>g v. search_overall text = Some g \<and> py_float g = Inr v)"
    using assms(2) [of "search_overall text"] by (cases "search_overall text") auto
  ultimately have "\<exists>r. extract_ratings text = Inr r"
    by (auto simp: extract_ratings_def Let_def)
  then show ?thesis
    using assms(1) by (auto simp: analyze_feedback_def)
qed



text \<open>
  C4, amended: whenever \<open>analyze_feedback\<close> returns ratings, a sub-rating whose
  pattern did not match is \<open>None\<close>, for that field alone, and a sub-rating whose pattern
  matched is the number \<open>float\<close> reads from the match, whatever its size: there is no
  range check. A match that \<open>float\<close> rejects makes the whole extraction fail:
  \<open>analyze_feedback\<close> returns no ratings.
\<close>

theorem analyze_feedback_fields:
  "(\<forall>r. analyze_feedback text = Some r \<longrightarrow>
      (\<forall>lbl field. (lbl, field) \<in> set [(''Teaching effectiveness:'', x_teaching_effectiveness),
                                     (''Student engagement:'', x_student_engagement),
                                     (''Clarity of presentation:'', x_clarity),
                                     (''Overall professionalism:'', x_professionalism)] \<longrightarrow>
         (search_label lbl text = None \<longrightarrow> field r = None) \<and>
         (\<forall>g. search_label lbl text = Some g \<longrightarrow>
              (\<exists>v. py_float g = Inr v \<and> field r = Some v)))) \<and>
   (\<forall>lbl g. lbl \<in> set [''Teaching effectiveness:'', ''Student engagement:'',
                        ''Clarity of presentation:'', ''Overall professionalism:''] \<longrightarrow>
      search_label lbl text = Some g \<longrightarrow> py_float g = Inl ValueError \<longrightarrow>
      analyze_feedback text = None)"
proof (intro conjI allI impI)
  fix r :: ratings and lbl :: string and field :: "ratings \<Rightarrow> rat option"
  assume ok: "analyze_feedback text = Some r"
    and mem: "(lbl, field) \<in> set [(''Teaching effectiveness:'', x_teaching_effectiveness),
                                     (''Student engagement:'', x_student_engagement),
                                     (''Clarity of presentation:'', x_clarity),
                                     (''Overall professionalism:'', x_professionalism)]"
  have ex: "extract_ratings text = Inr r"
    using ok by (rule analyze_feedback_Some)
  have fm: "float_of_match (search_label lbl text) = Inr (field r)"
    using mem extract_ratings_Inr(1-4) [OF ex] by auto
  show "search_label lbl text = None \<Longrightarrow> field r = None"
    using float_of_match_Inr [OF fm] by simp
  show "\<And>g. search_label lbl text = Some g \<Longrightarrow> \<exists>v. py_float g = Inr v \<and> field r = Some v"
    using float_of_match_Inr [OF fm] by simp
next
  fix lbl g
  assume mem: "lbl \<in> set [''Teaching effectiveness:'', ''Student engagement:'',
                        ''Clarity of presentation:'', ''Overall professionalism:'']"
    and m: "search_label lbl text = Some g" and bad: "py_float g = Inl ValueError"
  have fm: "float_of_match (search_label lbl text) = Inl ValueError"
    using m bad by (rule float_of_match_Inl)
  have "\<exists>e. extract_ratings text = Inl e"
    using mem fm by (auto simp: extract_ratings_def Let_def split: sum.splits option.splits)
  then show "analyze_feedback text = None"
    by (auto simp: analyze_feedback_def)
qed

text \<open>A sub-rating of 9 is kept as 9, and the malformed number 1.2.3 for one sub-rating
  leaves no ratings at all, although another sub-rating was matched as 4.\<close>

theorem analyze_feedback_fields_counterexample:
  "search_label ''Teaching effectiveness:'' text_malformed = Some ''4'' \<and>
   search_label ''Clarity of presentation:'' text_malformed = Some ''1.2.3'' \<and>
   analyze_feedback text_malformed = None \<and>
   search_label ''Teaching effectiveness:'' text_out_of_range = Some ''9'' \<and>
   map_option x_teaching_effectiveness (analyze_feedback text_out_of_range) = Some (Some 9)"
  by (simp add: eval_extract text_malformed_matches text_out_of_range_matches)

theorem analyze_feedback_fields_witness:
  "map_option (\<lambda>r. [x_teaching_effectiveness r, x_student_engagement r, x_clarity r,
                     x_professionalism r]) (analyze_feedback text_out_of_range) =
     Some [Some 9, Some 3, None, None] \<and>
   search_label ''Clarity of presentation:'' text_malformed = Some ''1.2.3'' \<and>
   py_float ''1.2.3'' = Inl ValueError \<and>
   analyze_feedback text_malformed = None"
proof -
  have ok: "analyze_feedback text_out_of_range \<noteq> None"
    by (simp add: eval_extract text_out_of_range_matches)
  then obtain r where r: "analyze_feedback text_out_of_range = Some r"
    by auto
  note m = text_out_of_range_matches
  note fields = analyze_feedback_fields [of text_out_of_range, THEN conjunct1, rule_format, OF r]
  have "x_teaching_effectiveness r = Some 9"
    using fields [of "''Teaching effectiveness:''" x_teaching_effectiveness] m(1) float_examples
    by auto
  moreover have "x_student_engagement r = Some 3"
    using fields [of "''Student engagement:''" x_student_engagement] m(2) float_examples
    by auto
  moreover have "x_clarity r = None"
    using fields [of "''Clarity of presentation:''" x_clarity] m(3) by auto
  moreover have "x_professionalism r = None"
    using fields [of "''Overall professionalism:''" x_professionalism] m(4) by auto
  moreover note bad = text_malformed_matches(3) and err = float_examples(7)
  moreover have "analyze_feedback text_malformed = None"
    using analyze_feedback_fields [of text_malformed, THEN conjunct2, rule_format,
        of "''Clarity of presentation:''" "''1.2.3''"] bad err by simp
  ultimately show ?thesis
    using r by simp
qed

end
